theory Spec2Isabelle
  imports Main "HOL-Library.Sublist"
begin

section \<open>ShaderCopilot: the shader generation workflow and the message handler\<close>

text \<open>
  A shallow embedding of
  \<^item> \<^verbatim>\<open>graphs/shader_gen/state.py\<close> (the task state),
  \<^item> \<^verbatim>\<open>graphs/shader_gen/nodes.py\<close> (the node functions and the conditional edges),
  \<^item> \<^verbatim>\<open>graphs/shader_gen/graph.py\<close> (the edges of the workflow graph),
  \<^item> \<^verbatim>\<open>server/message_handler.py\<close> (parsing, routing and the pending-callback maps).

  Python strings are \<^typ>\<open>string\<close>, Python's unbounded integers are \<^typ>\<open>int\<close>, dictionaries
  are maps, raised exceptions are the left summand of a sum type.
\<close>

subsection \<open>Strings\<close>

definition NL :: string where
  \<comment> \<open>the one-character string \<^verbatim>\<open>"\n"\<close>\<close>
  "NL = [CHR 0x0A]"

definition DQ :: string where
  \<comment> \<open>the one-character string holding a double quote\<close>
  "DQ = [CHR 0x22]"

definition py_in :: "string \<Rightarrow> string \<Rightarrow> bool" where
  \<comment> \<open>Python's \<^verbatim>\<open>sub in s\<close> on strings: \<^verbatim>\<open>sub\<close> occurs in \<^verbatim>\<open>s\<close> as a contiguous run\<close>
  "py_in sub s = sublist sub s"

fun join :: "string \<Rightarrow> string list \<Rightarrow> string" where
  \<comment> \<open>Python's \<^verbatim>\<open>sep.join(xs)\<close>\<close>
  "join sep [] = []"
| "join sep [x] = x"
| "join sep (x # y # ys) = x @ sep @ join sep (y # ys)"

definition py_or :: "string \<Rightarrow> string \<Rightarrow> string" where
  \<comment> \<open>Python's \<^verbatim>\<open>a or b\<close> on strings: the empty string is falsy\<close>
  "py_or a b = (if a = [] then b else a)"

subsection \<open>The task state (state.py)\<close>

text \<open>
  Modelled from the spec: the reply of the compile tool call,
  \<^verbatim>\<open>{success: bool, errors: [str]}\<close>, which the runner stores in \<^verbatim>\<open>state.compile_result\<close>.
  The nodes read exactly these two attributes: \<^verbatim>\<open>handle_compile_result\<close> and
  \<^verbatim>\<open>check_should_retry\<close> read \<^verbatim>\<open>success\<close>, \<^verbatim>\<open>finalize_failure\<close> joins \<^verbatim>\<open>errors\<close> as
  strings. The class \<^verbatim>\<open>CompileResult\<close> of state.py declares \<^verbatim>\<open>status\<close> and a list of
  \<^verbatim>\<open>CompileError\<close> objects instead, and no attribute \<^verbatim>\<open>success\<close>.
\<close>

record compile_reply =
  success :: bool
  errors :: "string list"

text \<open>
  The fields of \<^verbatim>\<open>ShaderGenState\<close> that the nodes and edges of the graph read or write,
  and \<^verbatim>\<open>error_history\<close>. \<^verbatim>\<open>compile_result\<close> is \<^term>\<open>None\<close> when the attribute is falsy.
\<close>

record ShaderGenState =
  reference_image :: "string option"
  image_analysis :: "string option"
  requirement_analysis :: "string option"
  generated_code :: string
  validation_passed :: bool
  validation_errors :: "string list"
  compile_result :: "compile_reply option"
  retry_count :: int
  max_retries :: int
  error_history :: "string list"
  current_stage :: string
  is_complete :: bool
  error :: "string option"

definition can_retry :: "ShaderGenState \<Rightarrow> bool" where
  "can_retry self = (retry_count self < max_retries self)"

text \<open>
  The methods \<^verbatim>\<open>increment_retry\<close> and \<^verbatim>\<open>reset_for_retry\<close> of the state are called by no
  node and no edge of the graph, and by the runner neither; \<^verbatim>\<open>increment_retry\<close> is the
  only code that appends to \<^verbatim>\<open>error_history\<close>.
\<close>

text \<open>
  A node returns a dictionary holding the keys it sets; the graph library writes those keys
  into the state and keeps every other field. \<^term>\<open>None\<close> in an update means that the
  key is absent.
\<close>

record update =
  u_image_analysis :: "string option option"
  u_requirement_analysis :: "string option"
  u_generated_code :: "string option"
  u_validation_passed :: "bool option"
  u_validation_errors :: "string list option"
  u_retry_count :: "int option"
  u_current_stage :: "string option"
  u_is_complete :: "bool option"
  u_error :: "string option"

definition no_update :: update where
  "no_update = \<lparr>u_image_analysis = None, u_requirement_analysis = None,
     u_generated_code = None, u_validation_passed = None, u_validation_errors = None,
     u_retry_count = None, u_current_stage = None, u_is_complete = None, u_error = None\<rparr>"

definition merge :: "ShaderGenState \<Rightarrow> update \<Rightarrow> ShaderGenState" where
  "merge s u = s\<lparr>
     image_analysis := (case u_image_analysis u of None \<Rightarrow> image_analysis s | Some v \<Rightarrow> v),
     requirement_analysis :=
       (case u_requirement_analysis u of None \<Rightarrow> requirement_analysis s | Some v \<Rightarrow> Some v),
     generated_code := (case u_generated_code u of None \<Rightarrow> generated_code s | Some v \<Rightarrow> v),
     validation_passed :=
       (case u_validation_passed u of None \<Rightarrow> validation_passed s | Some v \<Rightarrow> v),
     validation_errors :=
       (case u_validation_errors u of None \<Rightarrow> validation_errors s | Some v \<Rightarrow> v),
     retry_count := (case u_retry_count u of None \<Rightarrow> retry_count s | Some v \<Rightarrow> v),
     current_stage := (case u_current_stage u of None \<Rightarrow> current_stage s | Some v \<Rightarrow> v),
     is_complete := (case u_is_complete u of None \<Rightarrow> is_complete s | Some v \<Rightarrow> v),
     error := (case u_error u of None \<Rightarrow> error s | Some v \<Rightarrow> Some v)\<rparr>"

subsection \<open>The validation gate (nodes.py, validate\_shader)\<close>

text \<open>
  One \<^verbatim>\<open>if marker not in code: validation_errors.append(text)\<close> of the source: the list
  (\<open>errs\<close>) grows by the deficiency text when the marker is absent.
\<close>

definition check :: "string \<Rightarrow> string \<Rightarrow> string \<Rightarrow> string list \<Rightarrow> string list" where
  "check marker text code errs =
     (if \<not> py_in marker code then errs @ [text] else errs)"

definition checklist :: "(string \<times> string) list" where
  \<comment> \<open>the markers looked for and the deficiency texts, in the order of the source\<close>
  "checklist =
     [(''Shader '' @ DQ, ''Missing Shader declaration''),
      (''SubShader'', ''Missing SubShader block''),
      (''Pass'', ''Missing Pass block''),
      (''#pragma vertex'', ''Missing #pragma vertex directive''),
      (''#pragma fragment'', ''Missing #pragma fragment directive''),
      (''com.unity.render-pipelines'',
       ''Missing URP include (Packages/com.unity.render-pipelines.universal/...)''),
      (''HLSLPROGRAM'', ''Missing HLSLPROGRAM block (using CGPROGRAM instead of HLSL?)''),
      (''ENDHLSL'', ''Missing ENDHLSL'')]"

definition deficiencies :: "string \<Rightarrow> string list" where
  \<comment> \<open>the value of \<^verbatim>\<open>validation_errors\<close> (here \<open>errs\<close>) after the eight checks of the source\<close>
  "deficiencies code =
     (let errs = [];
          errs =
            (if \<not> py_in (''Shader '' @ DQ) code \<and> \<not> py_in (''Shader '' @ DQ) code
             then errs @ [''Missing Shader declaration''] else errs);
          errs = check ''SubShader'' ''Missing SubShader block'' code errs;
          errs = check ''Pass'' ''Missing Pass block'' code errs;
          errs =
            check ''#pragma vertex'' ''Missing #pragma vertex directive'' code errs;
          errs =
            check ''#pragma fragment'' ''Missing #pragma fragment directive'' code errs;
          errs =
            check ''com.unity.render-pipelines''
              ''Missing URP include (Packages/com.unity.render-pipelines.universal/...)''
              code errs;
          errs =
            check ''HLSLPROGRAM'' ''Missing HLSLPROGRAM block (using CGPROGRAM instead of HLSL?)''
              code errs;
          errs = check ''ENDHLSL'' ''Missing ENDHLSL'' code errs
      in errs)"

definition validate_shader :: "ShaderGenState \<Rightarrow> update" where
  "validate_shader state =
     (let code = py_or (generated_code state) [];
          errs = deficiencies code;
          is_valid = (length errs = 0)
      in no_update\<lparr>
           u_validation_passed := Some is_valid,
           u_validation_errors := Some errs,
           u_current_stage := Some (if is_valid then ''validated'' else ''validation_failed'')\<rparr>)"

definition check_should_compile :: "ShaderGenState \<Rightarrow> string" where
  "check_should_compile state = (if validation_passed state then ''compile'' else ''fix'')"

text \<open>The contribution of one checklist item: no string, or its deficiency text.\<close>

definition item :: "string \<Rightarrow> string \<times> string \<Rightarrow> string list" where
  "item code mt = (if py_in (fst mt) code then [] else [snd mt])"

subsection \<open>The other nodes (nodes.py)\<close>

text \<open>
  Four nodes call the generator (\<^verbatim>\<open>model_manager.generate\<close>), an external language model.
  Its reply is an argument of the node here. For \<^verbatim>\<open>generate_shader\<close> and
  \<^verbatim>\<open>fix_validation_errors\<close> the argument \<open>shader_code\<close> is the reply after
  \<^verbatim>\<open>extract_shader_code\<close>, that is, the text the node stores. The prompts sent to the
  generator are not part of the model.
\<close>

definition truthy :: "string option \<Rightarrow> bool" where
  \<comment> \<open>truth value of an optional string or byte string: None and the empty string are falsy\<close>
  "truthy x = (case x of None \<Rightarrow> False | Some v \<Rightarrow> v \<noteq> [])"

definition analyze_image :: "string \<Rightarrow> ShaderGenState \<Rightarrow> update" where
  "analyze_image analysis state =
     (if \<not> truthy (reference_image state)
      then no_update\<lparr>u_image_analysis := Some None, u_current_stage := Some ''no_image''\<rparr>
      else no_update\<lparr>u_image_analysis := Some (Some analysis),
             u_current_stage := Some ''image_analyzed''\<rparr>)"

definition analyze_requirement :: "string \<Rightarrow> ShaderGenState \<Rightarrow> update" where
  "analyze_requirement analysis state =
     (let combined_analysis = analysis;
          combined_analysis =
            (if truthy (image_analysis state)
             then ''User Requirement Analysis:'' @ NL @ analysis @ NL @ NL
                    @ ''Image Style Analysis:'' @ NL @ the (image_analysis state)
             else combined_analysis)
      in no_update\<lparr>u_requirement_analysis := Some combined_analysis,
           u_current_stage := Some ''analyzed''\<rparr>)"

definition generate_shader :: "string \<Rightarrow> ShaderGenState \<Rightarrow> update" where
  "generate_shader shader_code state =
     no_update\<lparr>u_generated_code := Some shader_code, u_current_stage := Some ''generated''\<rparr>"

definition fix_validation_errors :: "string \<Rightarrow> ShaderGenState \<Rightarrow> update" where
  "fix_validation_errors fixed_code state =
     no_update\<lparr>u_generated_code := Some fixed_code, u_current_stage := Some ''fixed''\<rparr>"

definition compile_succeeded :: "ShaderGenState \<Rightarrow> bool" where
  \<comment> \<open>the condition \<^verbatim>\<open>state.compile_result and state.compile_result.success\<close>\<close>
  "compile_succeeded state =
     (case compile_result state of None \<Rightarrow> False | Some r \<Rightarrow> success r)"

definition handle_compile_result :: "ShaderGenState \<Rightarrow> update" where
  "handle_compile_result state =
     (if compile_succeeded state
      then no_update\<lparr>u_current_stage := Some ''compiled''\<rparr>
      else no_update\<lparr>u_retry_count := Some (retry_count state + 1),
             u_current_stage := Some ''compile_failed''\<rparr>)"

definition check_should_retry :: "ShaderGenState \<Rightarrow> string" where
  "check_should_retry state =
     (if compile_succeeded state then ''success''
      else if can_retry state then ''retry''
      else ''fail'')"

definition prepare_retry :: "ShaderGenState \<Rightarrow> update" where
  "prepare_retry state = no_update\<lparr>u_current_stage := Some ''retrying''\<rparr>"

definition finalize_success :: "ShaderGenState \<Rightarrow> update" where
  "finalize_success state =
     no_update\<lparr>u_is_complete := Some True, u_current_stage := Some ''complete''\<rparr>"

definition final_errors :: "ShaderGenState \<Rightarrow> string list" where
  \<comment> \<open>\<^verbatim>\<open>state.compile_result.errors\<close> when \<^verbatim>\<open>state.compile_result\<close> is truthy, else nothing\<close>
  "final_errors state = (case compile_result state of None \<Rightarrow> [] | Some r \<Rightarrow> errors r)"

definition finalize_failure :: "ShaderGenState \<Rightarrow> update" where
  "finalize_failure state =
     (let error_summary = ''Shader generation failed after maximum retry attempts.'';
          error_summary =
            (if final_errors state \<noteq> []
             then error_summary @ NL @ NL @ ''Final errors:'' @ NL @ join NL (final_errors state)
             else error_summary)
      in no_update\<lparr>u_is_complete := Some True, u_error := Some error_summary,
           u_current_stage := Some ''failed''\<rparr>)"

subsection \<open>The workflow graph (graph.py, create\_shader\_gen\_graph)\<close>

datatype node =
  N_analyze_image | N_analyze | N_generate | N_validate | N_fix
  | N_compile_check | N_retry | N_success | N_fail | END

definition check_has_image :: "ShaderGenState \<Rightarrow> string" where
  "check_has_image state =
     (if truthy (reference_image state) then ''analyze_image'' else ''analyze'')"

definition entry_edges :: "(string \<times> node) list" where
  "entry_edges = [(''analyze_image'', N_analyze_image), (''analyze'', N_analyze)]"

definition validate_edges :: "(string \<times> node) list" where
  "validate_edges = [(''compile'', END), (''fix'', N_fix)]"

definition compile_check_edges :: "(string \<times> node) list" where
  "compile_check_edges = [(''retry'', N_retry), (''fail'', N_fail), (''success'', N_success)]"

definition entry_point :: "ShaderGenState \<Rightarrow> node option" where
  "entry_point state = map_of entry_edges (check_has_image state)"

text \<open>
  The generator is a sequence of replies: \<open>gen k\<close> is the text that its call number \<open>k\<close>
  yields. \<open>run_node\<close> runs the function of a node on the state, writes the returned keys
  into the state and counts the calls of the generator.
\<close>

type_synonym generator = "nat \<Rightarrow> string"

fun run_node :: "generator \<Rightarrow> node \<Rightarrow> ShaderGenState \<Rightarrow> nat \<Rightarrow> ShaderGenState \<times> nat" where
  "run_node gen N_analyze_image s k =
     (merge s (analyze_image (gen k) s), if truthy (reference_image s) then Suc k else k)"
| "run_node gen N_analyze s k = (merge s (analyze_requirement (gen k) s), Suc k)"
| "run_node gen N_generate s k = (merge s (generate_shader (gen k) s), Suc k)"
| "run_node gen N_validate s k = (merge s (validate_shader s), k)"
| "run_node gen N_fix s k = (merge s (fix_validation_errors (gen k) s), Suc k)"
| "run_node gen N_compile_check s k = (merge s (handle_compile_result s), k)"
| "run_node gen N_retry s k = (merge s (prepare_retry s), k)"
| "run_node gen N_success s k = (merge s (finalize_success s), k)"
| "run_node gen N_fail s k = (merge s (finalize_failure s), k)"
| "run_node gen END s k = (s, k)"

text \<open>The edge taken after a node, from the state that the node left.\<close>

fun next_node :: "node \<Rightarrow> ShaderGenState \<Rightarrow> node option" where
  "next_node N_analyze_image s = Some N_analyze"
| "next_node N_analyze s = Some N_generate"
| "next_node N_generate s = Some N_validate"
| "next_node N_validate s = map_of validate_edges (check_should_compile s)"
| "next_node N_fix s = Some N_validate"
| "next_node N_compile_check s = map_of compile_check_edges (check_should_retry s)"
| "next_node N_retry s = Some N_generate"
| "next_node N_success s = Some END"
| "next_node N_fail s = Some END"
| "next_node END s = None"

type_synonym config = "node \<times> ShaderGenState \<times> nat"

fun step :: "generator \<Rightarrow> config \<Rightarrow> config option" where
  "step gen (n, s, k) =
     (let (s', k') = run_node gen n s k
      in case next_node n s' of None \<Rightarrow> None | Some n' \<Rightarrow> Some (n', s', k'))"


text \<open>
  One invocation of the graph from a node: it runs until \<open>END\<close>. The source has no bound
  on the number of steps, so the model takes fuel, and \<^term>\<open>None\<close> means that the fuel
  ran out before \<open>END\<close>.
\<close>

fun run_graph :: "nat \<Rightarrow> generator \<Rightarrow> config \<Rightarrow> (ShaderGenState \<times> nat) option" where
  "run_graph 0 gen c = None"
| "run_graph (Suc fuel) gen (n, s, k) =
     (if n = END then Some (s, k)
      else case step gen (n, s, k) of None \<Rightarrow> None | Some c' \<Rightarrow> run_graph fuel gen c')"

definition ainvoke :: "nat \<Rightarrow> generator \<Rightarrow> ShaderGenState \<Rightarrow> nat \<Rightarrow> (ShaderGenState \<times> nat) option" where
  \<comment> \<open>\<^verbatim>\<open>graph.ainvoke(state)\<close>: a run from the conditional entry point\<close>
  "ainvoke fuel gen s k =
     (case entry_point s of None \<Rightarrow> None | Some n \<Rightarrow> run_graph fuel gen (n, s, k))"

definition resume :: "nat \<Rightarrow> generator \<Rightarrow> ShaderGenState \<Rightarrow> nat \<Rightarrow> (ShaderGenState \<times> nat) option" where
  \<comment> \<open>the invocation that the runner comments as "Resume from compile\_check node"\<close>
  "resume fuel gen s k = run_graph fuel gen (N_compile_check, s, k)"

text \<open>The nodes that one invocation of the graph runs, in order.\<close>

fun visited :: "nat \<Rightarrow> generator \<Rightarrow> config \<Rightarrow> node list" where
  "visited 0 gen c = []"
| "visited (Suc fuel) gen (n, s, k) =
     (if n = END then []
      else n # (case step gen (n, s, k) of None \<Rightarrow> [] | Some c' \<Rightarrow> visited fuel gen c'))"

subsection \<open>The runner (graph.py, ShaderGenRunner.run)\<close>

text \<open>
  The state that \<^verbatim>\<open>run\<close> builds: the arguments given, every other field at the default of
  the class. No node reads \<^verbatim>\<open>compile_result\<close> before the runner has stored the reply of
  the compile tool call there; the default object of the class stands as \<^term>\<open>None\<close>.
\<close>

definition initial_state :: "string option \<Rightarrow> int \<Rightarrow> ShaderGenState" where
  "initial_state img ceiling =
     \<lparr>reference_image = img, image_analysis = None, requirement_analysis = None,
      generated_code = [], validation_passed = False, validation_errors = [],
      compile_result = None, retry_count = 0, max_retries = ceiling, error_history = [],
      current_stage = ''init'', is_complete = False, error = None\<rparr>"

definition needs_compile :: "ShaderGenState \<Rightarrow> bool" where
  \<comment> \<open>the runner's condition for the compile tool call\<close>
  "needs_compile s = (validation_passed s \<and> \<not> is_complete s)"

text \<open>
  The loop of \<^verbatim>\<open>run\<close> with a tool-call handler: \<open>tool j\<close> is the reply to compile request
  number \<open>j\<close>. The result is the final state and the number of compile requests issued.
\<close>

fun run_loop ::
  "nat \<Rightarrow> generator \<Rightarrow> (nat \<Rightarrow> compile_reply) \<Rightarrow> ShaderGenState \<Rightarrow> nat \<Rightarrow> nat
     \<Rightarrow> (ShaderGenState \<times> nat) option" where
  "run_loop 0 gen tool s k j = None"
| "run_loop (Suc fuel) gen tool s k j =
     (case ainvoke fuel gen s k of
        None \<Rightarrow> None
      | Some (s1, k1) \<Rightarrow>
          if needs_compile s1 then
            (case resume fuel gen (s1\<lparr>compile_result := Some (tool j)\<rparr>) k1 of
               None \<Rightarrow> None
             | Some (s2, k2) \<Rightarrow>
                 if is_complete s2 then Some (s2, Suc j)
                 else run_loop fuel gen tool s2 k2 (Suc j))
          else if is_complete s1 then Some (s1, j)
          else run_loop fuel gen tool s1 k1 j)"

definition run ::
  "nat \<Rightarrow> generator \<Rightarrow> (nat \<Rightarrow> compile_reply) \<Rightarrow> string option \<Rightarrow> int
     \<Rightarrow> (ShaderGenState \<times> nat) option" where
  "run fuel gen tool img ceiling = run_loop fuel gen tool (initial_state img ceiling) 0 0"

text \<open>
  The configurations that an execution for retry ceiling \<open>m\<close> passes through: it starts in a
  fresh state at the entry point; it follows the edges of the graph; when a run has ended
  and the runner's condition for the compile tool call holds, the reply is stored and the
  graph resumes at \<open>compile_check\<close>; a run that ended without completing the task is
  invoked again from the entry point.
\<close>

inductive reachable :: "int \<Rightarrow> generator \<Rightarrow> config \<Rightarrow> bool" for m :: int and gen :: generator where
  start: "entry_point (initial_state img m) = Some n
          \<Longrightarrow> reachable m gen (n, initial_state img m, 0)"
| edge: "reachable m gen c \<Longrightarrow> step gen c = Some c' \<Longrightarrow> reachable m gen c'"
| reply: "reachable m gen (END, s, k) \<Longrightarrow> needs_compile s
          \<Longrightarrow> reachable m gen (N_compile_check, s\<lparr>compile_result := Some r\<rparr>, k)"
| again: "reachable m gen (END, s, k) \<Longrightarrow> \<not> is_complete s \<Longrightarrow> entry_point s = Some n
          \<Longrightarrow> reachable m gen (n, s, k)"



text \<open>
  The invariant of the pause: a run that has ended without completing the task has a
  pass verdict for the code that the state holds.
\<close>

definition gate_inv :: "config \<Rightarrow> bool" where
  "gate_inv c = (case c of (n, s, k) \<Rightarrow>
     n \<noteq> END \<or> is_complete s
     \<or> (validation_passed s \<and> validation_errors s = []
         \<and> deficiencies (generated_code s) = []))"



subsection \<open>Sample inputs\<close>

text \<open>A shader text that holds every marker of the checklist.\<close>

definition sample_shader :: string where
  "sample_shader =
     ''Shader '' @ DQ @ ''Custom/Unlit'' @ DQ @ '' { SubShader { Pass { HLSLPROGRAM ''
     @ ''#pragma vertex vert #pragma fragment frag #include '' @ DQ
     @ ''Packages/com.unity.render-pipelines.universal/ShaderLibrary/Core.hlsl'' @ DQ
     @ '' ENDHLSL } } }''"


text \<open>
  A shader text without the SubShader block, and a generator whose first shader is that
  text and whose every other reply is the sample shader (call 0 is the requirement
  analysis, call 1 the generation, call 2 the fix).
\<close>

definition broken_shader :: string where
  "broken_shader =
     ''Shader '' @ DQ @ ''Custom/Unlit'' @ DQ @ '' { Pass { HLSLPROGRAM ''
     @ ''#pragma vertex vert #pragma fragment frag #include '' @ DQ
     @ ''Packages/com.unity.render-pipelines.universal/ShaderLibrary/Core.hlsl'' @ DQ
     @ '' ENDHLSL } }''"

definition fixed_once_gen :: generator where
  "fixed_once_gen = (\<lambda>k. if k = 1 then broken_shader else sample_shader)"



section \<open>The message handler (server/message\_handler.py)\<close>

subsection \<open>Values and messages\<close>

text \<open>
  The value that \<^verbatim>\<open>json.loads\<close> returns: \<^verbatim>\<open>None\<close>, a bool, an int, a float (kept as its
  text), a str, a list or a dict (its items, in order).
\<close>

datatype json =
  JNull | JBool bool | JInt int | JFloat string | JString string
  | JArray "json list" | JObject "(string \<times> json) list"

text \<open>The exceptions that \<^verbatim>\<open>parse_message\<close> can leave: its own, and Python's \<^verbatim>\<open>TypeError\<close>.\<close>

datatype exn = MessageParseError string | TypeError

text \<open>
  The members of \<^verbatim>\<open>MessageType\<close> (messages.py) and \<^verbatim>\<open>MessageType(value)\<close>, which raises
  \<^verbatim>\<open>ValueError\<close> (here \<^term>\<open>None\<close>) on any other text. The handler calls the member for
  confirmations \<^verbatim>\<open>USER_CONFIRM\<close>; messages.py declares it as \<^verbatim>\<open>CONFIRM_RESPONSE\<close> with the
  tag \<^verbatim>\<open>"CONFIRM_RESPONSE"\<close>. The model has the one member, under the handler's name.
\<close>

datatype MessageType =
  SESSION_INIT | USER_MESSAGE | TOOL_RESPONSE | USER_CONFIRM | CANCEL_TASK | SESSION_END | PING

definition MessageType_of :: "string \<Rightarrow> MessageType option" where
  "MessageType_of v =
     map_of [(''SESSION_INIT'', SESSION_INIT), (''USER_MESSAGE'', USER_MESSAGE),
             (''TOOL_RESPONSE'', TOOL_RESPONSE), (''CONFIRM_RESPONSE'', USER_CONFIRM),
             (''CANCEL_TASK'', CANCEL_TASK), (''SESSION_END'', SESSION_END),
             (''ping'', PING)] v"

text \<open>
  \<^verbatim>\<open>BaseMessage\<close>: the type tag and the payload. The fields \<^verbatim>\<open>id\<close> and \<^verbatim>\<open>timestamp\<close>,
  which the handler never reads, are left out.
\<close>

record BaseMessage =
  msg_type :: string
  payload :: "(string \<times> json) list"

text \<open>
  Modelled from the spec: the payload classes \<^verbatim>\<open>UserConfirmPayload\<close> and
  \<^verbatim>\<open>ToolResponsePayload\<close> as the handler reads them. messages.py does not define the first,
  and declares \<^verbatim>\<open>tool_call_id\<close> where the handler reads \<^verbatim>\<open>request_id\<close>; the specification
  gives \<^verbatim>\<open>TOOL_RESPONSE{request_id, result}\<close> and a \<^verbatim>\<open>confirm_id\<close> for confirmations.
\<close>

record UserConfirmPayload =
  confirm_id :: string
  confirmed :: bool
  message :: "string option"

record ToolResponsePayload =
  request_id :: string
  result :: "(string \<times> json) list"

text \<open>
  Modelled from the spec: \<^verbatim>\<open>create_error_message\<close>, which the handler imports from
  messages.py and messages.py does not define. It builds the \<^verbatim>\<open>ERROR{code, message}\<close>
  message of the protocol; the model keeps its three arguments (\<^term>\<open>None\<close> for an
  argument \<^verbatim>\<open>recoverable\<close> that the call leaves out). The other messages that
  \<^verbatim>\<open>handle_message\<close> returns are the pong and whatever a registered handler returns.
\<close>

datatype out_message =
  PONG
  | ERROR (err_code: string) (err_text: string) (recoverable: "bool option")
  | HANDLER_REPLY BaseMessage

definition create_error_message :: "string \<Rightarrow> string \<Rightarrow> bool option \<Rightarrow> out_message" where
  "create_error_message c m r = ERROR c m r"

text \<open>
  What the libraries do is a parameter of the model: the three \<^verbatim>\<open>model_validate\<close> calls of
  pydantic (\<^term>\<open>Inl\<close> carries the text of the \<^verbatim>\<open>ValidationError\<close>) and the text that an
  f-string gives for a member of \<^verbatim>\<open>MessageType\<close>.
\<close>

record library =
  BaseMessage_validate :: "json \<Rightarrow> string + BaseMessage"
  UserConfirmPayload_validate :: "(string \<times> json) list \<Rightarrow> string + UserConfirmPayload"
  ToolResponsePayload_validate :: "(string \<times> json) list \<Rightarrow> string + ToolResponsePayload"
  format_type :: "MessageType \<Rightarrow> string"

subsection \<open>The handler object\<close>

text \<open>
  A callback or a handler is a function of its arguments; \<^term>\<open>Some e\<close> (for a handler
  \<^term>\<open>Inl e\<close>) means that it raised an exception with the text \<open>e\<close>.
\<close>

type_synonym confirm_callback = "bool \<Rightarrow> string option \<Rightarrow> string option"
type_synonym tool_callback = "ToolResponsePayload \<Rightarrow> string option"
type_synonym 'ctx handler = "BaseMessage \<Rightarrow> 'ctx \<Rightarrow> string + BaseMessage option"

record 'ctx MessageHandler =
  handlers :: "MessageType \<rightharpoonup> 'ctx handler"
  pending_confirms :: "string \<rightharpoonup> confirm_callback"
  pending_tool_calls :: "string \<rightharpoonup> tool_callback"

definition MessageHandler_init :: "'ctx MessageHandler" where
  "MessageHandler_init =
     \<lparr>handlers = Map.empty, pending_confirms = Map.empty, pending_tool_calls = Map.empty\<rparr>"

definition register_handler ::
  "'ctx MessageHandler \<Rightarrow> MessageType \<Rightarrow> 'ctx handler \<Rightarrow> 'ctx MessageHandler" where
  "register_handler self message_type h = self\<lparr>handlers := (handlers self)(message_type \<mapsto> h)\<rparr>"

definition register_confirm_callback ::
  "'ctx MessageHandler \<Rightarrow> string \<Rightarrow> confirm_callback \<Rightarrow> 'ctx MessageHandler" where
  "register_confirm_callback self cid callback =
     self\<lparr>pending_confirms := (pending_confirms self)(cid \<mapsto> callback)\<rparr>"

definition register_tool_callback ::
  "'ctx MessageHandler \<Rightarrow> string \<Rightarrow> tool_callback \<Rightarrow> 'ctx MessageHandler" where
  "register_tool_callback self rid callback =
     self\<lparr>pending_tool_calls := (pending_tool_calls self)(rid \<mapsto> callback)\<rparr>"

text \<open>
  What handling one message does besides changing the handler object: the message returned
  to the connection, the ids whose callbacks were called, and the log records written.
\<close>

datatype log_level = LogError | LogWarning | LogException

record outcome =
  response :: "out_message option"
  called :: "string list"
  logged :: "(log_level \<times> string) list"

subsection \<open>Parsing\<close>

text \<open>
  \<^verbatim>\<open>"type" not in data\<close> on the decoded value: key membership for a dict, element
  membership for a list, substring for a str, and \<^verbatim>\<open>TypeError\<close> for a value that is not
  a container (\<^verbatim>\<open>None\<close>, a bool, an int or a float).
\<close>

fun type_not_in :: "json \<Rightarrow> exn + bool" where
  "type_not_in (JObject items) = Inr (''type'' \<notin> set (map fst items))"
| "type_not_in (JArray xs) = Inr (JString ''type'' \<notin> set xs)"
| "type_not_in (JString s) = Inr (\<not> py_in ''type'' s)"
| "type_not_in JNull = Inl TypeError"
| "type_not_in (JBool b) = Inl TypeError"
| "type_not_in (JInt i) = Inl TypeError"
| "type_not_in (JFloat f) = Inl TypeError"

text \<open>
  \<^verbatim>\<open>parse_message\<close>. The argument is the outcome of \<^verbatim>\<open>json.loads(raw_data)\<close>: \<^term>\<open>Inl e\<close>
  for a \<^verbatim>\<open>JSONDecodeError\<close> with the text \<open>e\<close>, else the decoded value.
\<close>

definition parse_message :: "library \<Rightarrow> string + json \<Rightarrow> exn + BaseMessage" where
  "parse_message L loaded =
     (case loaded of
        Inl e \<Rightarrow> Inl (MessageParseError (''Invalid JSON: '' @ e))
      | Inr data \<Rightarrow>
          (case type_not_in data of
             Inl x \<Rightarrow> Inl x
           | Inr True \<Rightarrow> Inl (MessageParseError ''Missing 'type' field'')
           | Inr False \<Rightarrow>
               (case BaseMessage_validate L data of
                  Inl e \<Rightarrow> Inl (MessageParseError (''Invalid message structure: '' @ e))
                | Inr m \<Rightarrow> Inr m)))"

definition validate_payload ::
  "library \<Rightarrow> BaseMessage \<Rightarrow> ((string \<times> json) list \<Rightarrow> string + 'p) \<Rightarrow> exn + 'p" where
  "validate_payload L msg payload_class =
     (case payload_class (payload msg) of
        Inl e \<Rightarrow> Inl (MessageParseError (''Invalid payload for '' @ msg_type msg @ '': '' @ e))
      | Inr p \<Rightarrow> Inr p)"

subsection \<open>Confirmations and tool responses\<close>

definition handle_confirm ::
  "library \<Rightarrow> 'ctx MessageHandler \<Rightarrow> BaseMessage \<Rightarrow> exn + 'ctx MessageHandler \<times> outcome" where
  "handle_confirm L self msg =
     (case validate_payload L msg (UserConfirmPayload_validate L) of
        Inl (MessageParseError e) \<Rightarrow>
          Inr (self, \<lparr>response = Some (create_error_message ''INVALID_CONFIRM'' e None),
                     called = [], logged = []\<rparr>)
      | Inl TypeError \<Rightarrow> Inl TypeError
      | Inr p \<Rightarrow>
          (let callback = pending_confirms self (confirm_id p);
               self = self\<lparr>pending_confirms := (pending_confirms self)(confirm_id p := None)\<rparr>
           in case callback of
                Some cb \<Rightarrow>
                  (case cb (confirmed p) (message p) of
                     None \<Rightarrow> Inr (self, \<lparr>response = None, called = [confirm_id p], logged = []\<rparr>)
                   | Some e \<Rightarrow>
                       Inr (self, \<lparr>response = None, called = [confirm_id p],
                                  logged = [(LogException, ''Confirm callback error: '' @ e)]\<rparr>))
              | None \<Rightarrow>
                  Inr (self, \<lparr>response = None, called = [],
                             logged = [(LogWarning,
                                        ''No pending confirm for '' @ confirm_id p)]\<rparr>)))"

definition handle_tool_response ::
  "library \<Rightarrow> 'ctx MessageHandler \<Rightarrow> BaseMessage \<Rightarrow> exn + 'ctx MessageHandler \<times> outcome" where
  "handle_tool_response L self msg =
     (case validate_payload L msg (ToolResponsePayload_validate L) of
        Inl (MessageParseError e) \<Rightarrow>
          Inr (self, \<lparr>response = Some (create_error_message ''INVALID_TOOL_RESPONSE'' e None),
                     called = [], logged = []\<rparr>)
      | Inl TypeError \<Rightarrow> Inl TypeError
      | Inr p \<Rightarrow>
          (let callback = pending_tool_calls self (request_id p);
               self = self\<lparr>pending_tool_calls := (pending_tool_calls self)(request_id p := None)\<rparr>
           in case callback of
                Some cb \<Rightarrow>
                  (case cb p of
                     None \<Rightarrow> Inr (self, \<lparr>response = None, called = [request_id p], logged = []\<rparr>)
                   | Some e \<Rightarrow>
                       Inr (self, \<lparr>response = None, called = [request_id p],
                                  logged = [(LogException,
                                             ''Tool response callback error: '' @ e)]\<rparr>))
              | None \<Rightarrow>
                  Inr (self, \<lparr>response = None, called = [],
                             logged = [(LogWarning,
                                        ''No pending tool call for '' @ request_id p)]\<rparr>)))"

subsection \<open>Routing\<close>

text \<open>
  \<^verbatim>\<open>handle_message\<close>. \<^term>\<open>Inl x\<close> is an exception that leaves the function; the caller,
  the connection handler of the server, then ends the connection.
\<close>

definition handle_message ::
  "library \<Rightarrow> 'ctx MessageHandler \<Rightarrow> string + json \<Rightarrow> 'ctx
     \<Rightarrow> exn + 'ctx MessageHandler \<times> outcome" where
  "handle_message L self loaded context =
     (case parse_message L loaded of
        Inl (MessageParseError e) \<Rightarrow>
          Inr (self, \<lparr>response = Some (create_error_message ''PARSE_ERROR'' e (Some True)),
                     called = [], logged = [(LogError, ''Failed to parse message: '' @ e)]\<rparr>)
      | Inl TypeError \<Rightarrow> Inl TypeError
      | Inr msg \<Rightarrow>
          (case MessageType_of (msg_type msg) of
             None \<Rightarrow>
               Inr (self,
                 \<lparr>response = Some (create_error_message ''UNKNOWN_MESSAGE_TYPE''
                               (''Unknown message type: '' @ msg_type msg) (Some True)),
                  called = [],
                  logged = [(LogWarning, ''Unknown message type: '' @ msg_type msg)]\<rparr>)
           | Some mt \<Rightarrow>
               if mt = PING then Inr (self, \<lparr>response = Some PONG, called = [], logged = []\<rparr>)
               else if mt = USER_CONFIRM then handle_confirm L self msg
               else if mt = TOOL_RESPONSE then handle_tool_response L self msg
               else
                 (case handlers self mt of
                    None \<Rightarrow>
                      Inr (self,
                        \<lparr>response = Some (create_error_message ''NO_HANDLER''
                                      (''No handler for message type: '' @ format_type L mt)
                                      (Some True)),
                         called = [],
                         logged = [(LogWarning,
                                    ''No handler registered for '' @ format_type L mt)]\<rparr>)
                  | Some h \<Rightarrow>
                      (case h msg context of
                         Inr r \<Rightarrow>
                           Inr (self, \<lparr>response = map_option HANDLER_REPLY r, called = [],
                                      logged = []\<rparr>)
                       | Inl e \<Rightarrow>
                           Inr (self,
                             \<lparr>response = Some (create_error_message ''HANDLER_ERROR''
                                           (''Error processing '' @ format_type L mt @ '': '' @ e)
                                           (Some True)),
                              called = [],
                              logged = [(LogException,
                                         ''Handler error for '' @ format_type L mt @ '': ''
                                           @ e)]\<rparr>)))))"

subsection \<open>Sample inputs of the handler\<close>


text \<open>Two tool callbacks that differ, and a handler object that waits on one tool call.\<close>

definition first_callback :: tool_callback where
  "first_callback = (\<lambda>p. None)"

definition second_callback :: tool_callback where
  "second_callback = (\<lambda>p. Some ''second'')"

definition waiting_handler :: "unit MessageHandler" where
  "waiting_handler = register_tool_callback MessageHandler_init ''call-1'' first_callback"



section \<open>Properties\<close>

subsection \<open>Facts about the validation gate\<close>

lemma check_item: "check m t code errs = errs @ item code (m, t)"
  by (simp add: check_def item_def)

lemma first_item:
  "(if \<not> py_in m code \<and> \<not> py_in m code then errs @ [t] else errs) = errs @ item code (m, t)"
  by (simp add: item_def)

lemma deficiencies_items: "deficiencies code = concat (map (item code) checklist)"
  unfolding deficiencies_def checklist_def Let_def check_item first_item
  by (simp only: list.map concat.simps append_Nil append_Nil2 append_assoc)

lemma item_length: "length (item code mt) \<le> Suc 0"
  by (simp add: item_def)

lemma item_empty: "item code mt = [] \<longleftrightarrow> py_in (fst mt) code"
  by (simp add: item_def)

lemma py_or_empty: "py_or code [] = code"
  by (simp add: py_or_def)

lemma concat_items_length: "length (concat (map (item code) xs)) \<le> length xs"
proof (induction xs)
  case Nil
  show ?case by simp
next
  case (Cons mt xs)
  have "length (item code mt) \<le> Suc 0" by (rule item_length)
  with Cons show ?case by simp
qed

lemma checklist_length: "length checklist = 8"
  by (simp add: checklist_def)

lemma deficiencies_length: "length (deficiencies code) \<le> 8"
  using concat_items_length [of code checklist]
  by (simp add: deficiencies_items checklist_length)

lemma deficiencies_none:
  "deficiencies code = [] \<longleftrightarrow> (\<forall>mt \<in> set checklist. py_in (fst mt) code)"
  by (simp add: deficiencies_items item_empty)

lemma validate_shader_eq:
  "validate_shader state = no_update\<lparr>
     u_validation_passed := Some (deficiencies (generated_code state) = []),
     u_validation_errors := Some (deficiencies (generated_code state)),
     u_current_stage := Some (if deficiencies (generated_code state) = []
                              then ''validated'' else ''validation_failed'')\<rparr>"
  by (simp add: validate_shader_def py_or_empty Let_def)

lemma merge_validate:
  "merge state (validate_shader state) = state\<lparr>
     validation_passed := deficiencies (generated_code state) = [],
     validation_errors := deficiencies (generated_code state),
     current_stage := (if deficiencies (generated_code state) = []
                       then ''validated'' else ''validation_failed'')\<rparr>"
  by (simp add: validate_shader_eq merge_def no_update_def)

lemma deficiencies_empty:
  "deficiencies [] =
     [''Missing Shader declaration'', ''Missing SubShader block'', ''Missing Pass block'',
      ''Missing #pragma vertex directive'', ''Missing #pragma fragment directive'',
      ''Missing URP include (Packages/com.unity.render-pipelines.universal/...)'',
      ''Missing HLSLPROGRAM block (using CGPROGRAM instead of HLSL?)'', ''Missing ENDHLSL'']"
  by (simp add: deficiencies_def check_def py_in_def DQ_def)

lemma sample_ok: "deficiencies sample_shader = []"
  by (simp add: deficiencies_def check_def py_in_def DQ_def sample_shader_def sublist_code)

text \<open>
  Claim C6. The verdict of the validation gate is pass if and only if the checklist yields
  no deficiency string. The deficiency list is the concatenation, in order, of what the
  eight items of the checklist contribute (the Shader declaration, the SubShader and Pass
  blocks, the two pragma directives, the URP include marker, and the opening HLSLPROGRAM
  and closing ENDHLSL markers); each item contributes no string or one; and the verdict
  is pass exactly when every marker occurs in the generated code.
\<close>

theorem validate_shader_verdict:
  "(validation_passed (merge state (validate_shader state))
      \<longleftrightarrow> validation_errors (merge state (validate_shader state)) = [])
   \<and> validation_errors (merge state (validate_shader state))
       = concat (map (item (generated_code state)) checklist)
   \<and> (\<forall>mt \<in> set checklist. length (item (generated_code state) mt) \<le> 1)
   \<and> (validation_passed (merge state (validate_shader state))
      \<longleftrightarrow> (\<forall>mt \<in> set checklist. py_in (fst mt) (generated_code state)))"
proof -
  let ?s = "merge state (validate_shader state)"
  have v: "validation_passed ?s = (deficiencies (generated_code state) = [])"
    and e: "validation_errors ?s = deficiencies (generated_code state)"
    by (simp_all add: merge_validate)
  have one: "\<forall>mt \<in> set checklist. length (item (generated_code state) mt) \<le> 1"
    by (simp add: item_length)
  show ?thesis
    unfolding v e
    using one deficiencies_items [of "generated_code state"]
      deficiencies_none [of "generated_code state"]
    by blast
qed

theorem validate_shader_verdict_witness:
  "validation_passed (merge (initial_state None 3\<lparr>generated_code := sample_shader\<rparr>)
      (validate_shader (initial_state None 3\<lparr>generated_code := sample_shader\<rparr>)))
   \<and> validation_errors (merge (initial_state None 3\<lparr>generated_code := sample_shader\<rparr>)
      (validate_shader (initial_state None 3\<lparr>generated_code := sample_shader\<rparr>))) = []
   \<and> list_all (\<lambda>mt. py_in (fst mt) sample_shader) checklist
   \<and> length checklist = 8"
  using validate_shader_verdict [of "initial_state None 3\<lparr>generated_code := sample_shader\<rparr>"]
  by (simp add: merge_validate sample_ok checklist_length list_all_iff initial_state_def)

text \<open>
  Claim C8. The validation gate is a function of the generated code alone: two states that
  carry the same generated code get the same verdict, the same deficiency list in the same
  order and the same stage tag; running the gate again on the state it produced gives the
  same result; and writing the result into the state changes the three validation keys
  and nothing else.
\<close>

theorem validate_shader_deterministic:
  "(generated_code s1 = generated_code s2 \<longrightarrow> validate_shader s1 = validate_shader s2)
   \<and> validate_shader (merge s1 (validate_shader s1)) = validate_shader s1
   \<and> merge s1 (validate_shader s1) = s1\<lparr>
        validation_passed := the (u_validation_passed (validate_shader s1)),
        validation_errors := the (u_validation_errors (validate_shader s1)),
        current_stage := the (u_current_stage (validate_shader s1))\<rparr>"
proof -
  have "generated_code (merge s1 (validate_shader s1)) = generated_code s1"
    by (simp add: merge_validate)
  then show ?thesis
    by (simp add: validate_shader_eq merge_def no_update_def)
qed

theorem validate_shader_deterministic_witness:
  "generated_code (initial_state None 3) = generated_code (initial_state (Some ''img'') 1)
   \<and> validate_shader (initial_state None 3) = validate_shader (initial_state (Some ''img'') 1)"
  using validate_shader_deterministic [of "initial_state None 3" "initial_state (Some ''img'') 1"]
  by (simp add: initial_state_def)

text \<open>
  Claim C10. \<^verbatim>\<open>validate_shader\<close> has no failing branch: for every state it returns a verdict
  and a list of at most eight deficiency strings, the verdict being pass exactly when the
  list is empty. On the empty artifact the verdict is fail and the list holds exactly the
  eight deficiency strings, one per checklist item, in the order of the checklist.
\<close>

theorem validate_shader_empty:
  "(\<exists>passed errs stage.
      validate_shader state = no_update\<lparr>u_validation_passed := Some passed,
        u_validation_errors := Some errs, u_current_stage := Some stage\<rparr>
      \<and> passed = (errs = []) \<and> length errs \<le> 8)
   \<and> validate_shader (state\<lparr>generated_code := []\<rparr>) = no_update\<lparr>
        u_validation_passed := Some False,
        u_validation_errors := Some
          [''Missing Shader declaration'', ''Missing SubShader block'', ''Missing Pass block'',
           ''Missing #pragma vertex directive'', ''Missing #pragma fragment directive'',
           ''Missing URP include (Packages/com.unity.render-pipelines.universal/...)'',
           ''Missing HLSLPROGRAM block (using CGPROGRAM instead of HLSL?)'', ''Missing ENDHLSL''],
        u_current_stage := Some ''validation_failed''\<rparr>
   \<and> length (the (u_validation_errors (validate_shader (state\<lparr>generated_code := []\<rparr>)))) = 8"
proof -
  have a: "\<exists>passed errs stage.
      validate_shader state = no_update\<lparr>u_validation_passed := Some passed,
        u_validation_errors := Some errs, u_current_stage := Some stage\<rparr>
      \<and> passed = (errs = []) \<and> length errs \<le> 8"
    using validate_shader_eq [of state] deficiencies_length [of "generated_code state"]
    by blast
  have b: "validate_shader (state\<lparr>generated_code := []\<rparr>) = no_update\<lparr>
        u_validation_passed := Some False,
        u_validation_errors := Some (deficiencies []),
        u_current_stage := Some ''validation_failed''\<rparr>"
    by (simp add: validate_shader_eq deficiencies_empty)
  show ?thesis
    using a b by (simp add: deficiencies_empty)
qed

subsection \<open>Facts about the workflow graph\<close>


lemma merge_simps:
  "max_retries (merge s u) = max_retries s"
  "reference_image (merge s u) = reference_image s"
  "compile_result (merge s u) = compile_result s"
  "error_history (merge s u) = error_history s"
  "retry_count (merge s u) = (case u_retry_count u of None \<Rightarrow> retry_count s | Some v \<Rightarrow> v)"
  "is_complete (merge s u) = (case u_is_complete u of None \<Rightarrow> is_complete s | Some v \<Rightarrow> v)"
  "generated_code (merge s u) = (case u_generated_code u of None \<Rightarrow> generated_code s | Some v \<Rightarrow> v)"
  "validation_passed (merge s u) = (case u_validation_passed u of None \<Rightarrow> validation_passed s | Some v \<Rightarrow> v)"
  "validation_errors (merge s u) = (case u_validation_errors u of None \<Rightarrow> validation_errors s | Some v \<Rightarrow> v)"
  "error (merge s u) = (case u_error u of None \<Rightarrow> error s | Some v \<Rightarrow> Some v)"
  "current_stage (merge s u) = (case u_current_stage u of None \<Rightarrow> current_stage s | Some v \<Rightarrow> v)"
  by (simp_all add: merge_def)

lemmas node_defs = analyze_image_def analyze_requirement_def generate_shader_def
  fix_validation_errors_def handle_compile_result_def prepare_retry_def finalize_success_def
  finalize_failure_def validate_shader_eq no_update_def Let_def






lemma entry_point_cases: "entry_point s = Some n \<Longrightarrow> n = N_analyze_image \<or> n = N_analyze"
  by (auto simp: entry_point_def entry_edges_def check_has_image_def split: if_splits)



lemma step_total: "n \<noteq> END \<Longrightarrow> \<exists>c'. step gen (n, s, k) = Some c'"
  by (cases n)
     (simp_all add: validate_edges_def compile_check_edges_def check_should_compile_def
        check_should_retry_def)




subsection \<open>Steps and runs of the graph\<close>


lemma run_graph_END: "run_graph (Suc fuel) gen (END, s, k) = Some (s, k)"
  by simp


lemma step_generate:
  "step gen (N_generate, s, k) =
     Some (N_validate, s\<lparr>generated_code := gen k, current_stage := ''generated''\<rparr>, Suc k)"
  by (simp add: merge_def node_defs)

lemma step_validate_pass:
  "deficiencies (generated_code s) = [] \<Longrightarrow>
   step gen (N_validate, s, k) =
     Some (END, s\<lparr>validation_passed := True, validation_errors := [],
                   current_stage := ''validated''\<rparr>, k)"
  by (simp add: merge_validate validate_edges_def check_should_compile_def)

lemma step_validate_fail:
  "deficiencies (generated_code s) \<noteq> [] \<Longrightarrow>
   step gen (N_validate, s, k) =
     Some (N_fix, s\<lparr>validation_passed := False,
                     validation_errors := deficiencies (generated_code s),
                     current_stage := ''validation_failed''\<rparr>, k)"
  by (simp add: merge_validate validate_edges_def check_should_compile_def)



lemma step_compile_check_failed:
  "\<not> compile_succeeded s \<Longrightarrow>
   step gen (N_compile_check, s, k) =
     Some (if retry_count s + 1 < max_retries s then N_retry else N_fail,
           s\<lparr>retry_count := retry_count s + 1, current_stage := ''compile_failed''\<rparr>, k)"
  by (simp add: merge_def node_defs compile_check_edges_def check_should_retry_def
        can_retry_def compile_succeeded_def)

lemma step_compile_check_succeeded:
  "compile_succeeded s \<Longrightarrow>
   step gen (N_compile_check, s, k) = Some (N_success, s\<lparr>current_stage := ''compiled''\<rparr>, k)"
  by (simp add: merge_def node_defs compile_check_edges_def check_should_retry_def
        compile_succeeded_def)

lemma step_fail:
  "step gen (N_fail, s, k) =
     Some (END, s\<lparr>is_complete := True,
                   error := Some (if final_errors s \<noteq> []
                     then ''Shader generation failed after maximum retry attempts.'' @ NL @ NL
                            @ ''Final errors:'' @ NL @ join NL (final_errors s)
                     else ''Shader generation failed after maximum retry attempts.''),
                   current_stage := ''failed''\<rparr>, k)"
  by (simp add: merge_def node_defs)

lemma step_success:
  "step gen (N_success, s, k) =
     Some (END, s\<lparr>is_complete := True, current_stage := ''complete''\<rparr>, k)"
  by (simp add: merge_def node_defs)





lemma visited_from_generate:
  "deficiencies (gen k) = [] \<Longrightarrow>
   visited (Suc (Suc (Suc fuel))) gen (N_generate, s, k) = [N_generate, N_validate]"
  by (simp add: step_generate step_validate_pass del: step.simps)









text \<open>The configurations of a run of the graph are configurations of an execution.\<close>


lemma reachable_run_graph:
  "reachable m gen c \<Longrightarrow> run_graph fuel gen c = Some (s, k) \<Longrightarrow> reachable m gen (END, s, k)"
proof (induction fuel arbitrary: c)
  case 0
  then show ?case by simp
next
  case (Suc fuel)
  obtain n s0 k0 where c: "c = (n, s0, k0)" by (cases c) auto
  show ?case
  proof (cases "n = END")
    case True
    with Suc.prems c show ?thesis by simp
  next
    case False
    with Suc.prems(2) c obtain c' where st: "step gen c = Some c'"
      and rg: "run_graph fuel gen c' = Some (s, k)"
      by (auto split: option.splits simp del: step.simps)
    from Suc.prems(1) st have "reachable m gen c'" by (rule reachable.edge)
    with rg show ?thesis by (rule Suc.IH [rotated])
  qed
qed

lemma entry_point_total: "\<exists>n. entry_point s = Some n"
  by (cases "truthy (reference_image s)")
     (simp_all add: entry_point_def entry_edges_def check_has_image_def)







text \<open>Every turn of the runner's loop stays within the configurations of an execution.\<close>


lemma run_loop_reachable:
  assumes "entry_point s = Some n" "reachable m gen (n, s, k)"
    and "run_loop fuel gen tool s k j = Some (s', j')"
  shows "\<exists>k'. reachable m gen (END, s', k')"
  using assms
proof (induction fuel arbitrary: s n k j)
  case 0
  then show ?case by simp
next
  case (Suc fuel)
  from Suc.prems(3) obtain s1 k1 where a: "ainvoke fuel gen s k = Some (s1, k1)"
    by (auto split: option.splits)
  with Suc.prems(1) have "run_graph fuel gen (n, s, k) = Some (s1, k1)"
    by (simp add: ainvoke_def)
  with Suc.prems(2) have r1: "reachable m gen (END, s1, k1)" by (rule reachable_run_graph)
  show ?case
  proof (cases "needs_compile s1")
    case True
    with Suc.prems(3) a obtain s2 k2 where
      b: "resume fuel gen (s1\<lparr>compile_result := Some (tool j)\<rparr>) k1 = Some (s2, k2)"
      by (auto split: option.splits)
    from r1 True have "reachable m gen (N_compile_check, s1\<lparr>compile_result := Some (tool j)\<rparr>, k1)"
      by (rule reachable.reply)
    with b have r2: "reachable m gen (END, s2, k2)"
      unfolding resume_def by (blast intro: reachable_run_graph)
    show ?thesis
    proof (cases "is_complete s2")
      case True
      with Suc.prems(3) a b \<open>needs_compile s1\<close> have "s' = s2" by simp
      with r2 show ?thesis by blast
    next
      case False
      with Suc.prems(3) a b \<open>needs_compile s1\<close>
      have l: "run_loop fuel gen tool s2 k2 (Suc j) = Some (s', j')" by simp
      obtain n2 where e: "entry_point s2 = Some n2" using entry_point_total [of s2] by blast
      from r2 False e have "reachable m gen (n2, s2, k2)" by (rule reachable.again)
      from Suc.IH [OF e this l] show ?thesis .
    qed
  next
    case False
    show ?thesis
    proof (cases "is_complete s1")
      case True
      with Suc.prems(3) a False have "s' = s1" by simp
      with r1 show ?thesis by blast
    next
      case nc: False
      with Suc.prems(3) a False
      have l: "run_loop fuel gen tool s1 k1 j = Some (s', j')" by simp
      obtain n1 where e: "entry_point s1 = Some n1" using entry_point_total [of s1] by blast
      from r1 nc e have "reachable m gen (n1, s1, k1)" by (rule reachable.again)
      from Suc.IH [OF e this l] show ?thesis .
    qed
  qed
qed

text \<open>The state that the runner returns belongs to a configuration of an execution.\<close>

lemma run_reachable:
  assumes "run fuel gen tool img m = Some (s, j)"
  shows "\<exists>k. reachable m gen (END, s, k)"
proof -
  obtain n where e: "entry_point (initial_state img m) = Some n"
    using entry_point_total [of "initial_state img m"] by blast
  then have "reachable m gen (n, initial_state img m, 0)" by (rule reachable.start)
  from run_loop_reachable [OF e this] assms show ?thesis by (simp add: run_def)
qed

lemma run_node_history: "error_history (fst (run_node gen n s k)) = error_history s"
  by (cases n) (simp_all add: merge_simps)

text \<open>No execution writes to the error history.\<close>

lemma reachable_history: "reachable m gen (n, s, k) \<Longrightarrow> error_history s = []"
proof (induction "(n, s, k)" arbitrary: n s k rule: reachable.induct)
  case (start img n)
  show ?case by (simp add: initial_state_def)
next
  case (edge c)
  obtain n0 s0 k0 where c: "c = (n0, s0, k0)" by (cases c) auto
  from edge(3) have "s = fst (run_node gen n0 s0 k0)"
    unfolding c by (auto split: prod.splits option.splits)
  with edge(2) [OF c] show ?case by (simp add: run_node_history)
next
  case (reply s k r)
  then show ?case by simp
next
  case (again s k n)
  then show ?case by simp
qed


subsection \<open>The retry counter\<close>







subsection \<open>The retry scenario\<close>








subsection \<open>The compile request and the validation gate\<close>


lemma step_gate: "step gen c = Some c' \<Longrightarrow> gate_inv c'"
proof -
  assume st: "step gen c = Some c'"
  obtain n s k where c: "c = (n, s, k)" by (cases c) auto
  show ?thesis
  proof (cases n)
    case N_validate
    show ?thesis
    proof (cases "deficiencies (generated_code s) = []")
      case True
      from st show ?thesis
        unfolding c N_validate step_validate_pass [OF True] by (auto simp: gate_inv_def True)
    next
      case False
      from st show ?thesis
        unfolding c N_validate step_validate_fail [OF False] by (auto simp: gate_inv_def)
    qed
  next
    case N_compile_check
    show ?thesis
    proof (cases "compile_succeeded s")
      case True
      from st show ?thesis
        unfolding c N_compile_check step_compile_check_succeeded [OF True]
        by (auto simp: gate_inv_def)
    next
      case False
      from st show ?thesis
        unfolding c N_compile_check step_compile_check_failed [OF False]
        by (auto simp: gate_inv_def split: if_splits)
    qed
  next
    case N_fail
    from st show ?thesis unfolding c N_fail step_fail by (auto simp: gate_inv_def)
  next
    case N_success
    from st show ?thesis unfolding c N_success step_success by (auto simp: gate_inv_def)
  next
    case END
    from st show ?thesis unfolding c END by simp
  qed (use st in \<open>auto simp: c gate_inv_def\<close>)
qed

lemma reachable_gate: "reachable m gen c \<Longrightarrow> gate_inv c"
proof (induction rule: reachable.induct)
  case (start img n)
  then have "n = N_analyze_image \<or> n = N_analyze" by (rule entry_point_cases)
  then show ?case by (auto simp: gate_inv_def)
next
  case (edge c c')
  then show ?case by (blast intro: step_gate)
next
  case (reply s k r)
  show ?case by (simp add: gate_inv_def)
next
  case (again s k n)
  then have "n = N_analyze_image \<or> n = N_analyze" by (blast dest: entry_point_cases)
  then show ?case by (auto simp: gate_inv_def)
qed

lemma broken_shader_deficient: "deficiencies broken_shader = [''Missing SubShader block'']"
  by (simp add: deficiencies_def check_def py_in_def DQ_def broken_shader_def sublist_code)

lemma fixed_once_run:
  "(case run_graph 10 fixed_once_gen (N_analyze, initial_state None 3, 0) of
      None \<Rightarrow> False
    | Some (s, k) \<Rightarrow> needs_compile s \<and> generated_code s = sample_shader \<and> k = 3)"
  by code_simp

lemma fixed_once_visited:
  "visited 10 fixed_once_gen (N_analyze, initial_state None 3, 0)
     = [N_analyze, N_generate, N_validate, N_fix, N_validate]"
  by code_simp

text \<open>
  Claim C7. In every configuration of an execution: when a run of the graph has ended and
  the runner's condition for the compile tool call holds, the code in the state has a pass
  verdict (no deficiency); from \<open>validate\<close> with a fail verdict the one transition is to
  \<open>fix\<close>, into a state for which the runner issues no compile request; and from
  \<open>validate\<close> with a pass verdict the run ends for the compile request.
\<close>

theorem compile_only_after_pass:
  assumes "reachable m gen (n, s, k)"
  shows "(n = END \<and> needs_compile s
            \<longrightarrow> deficiencies (generated_code s) = [] \<and> validation_errors s = [])
       \<and> (n = N_validate \<and> deficiencies (generated_code s) \<noteq> []
            \<longrightarrow> (\<exists>s'. step gen (n, s, k) = Some (N_fix, s', k) \<and> \<not> needs_compile s'
                       \<and> check_should_compile s' = ''fix''))
       \<and> (n = N_validate \<and> deficiencies (generated_code s) = []
            \<longrightarrow> (\<exists>s'. step gen (n, s, k) = Some (END, s', k) \<and> validation_passed s'
                       \<and> check_should_compile s' = ''compile''))"
proof -
  from assms have "gate_inv (n, s, k)" by (rule reachable_gate)
  then have a: "n = END \<and> needs_compile s
      \<longrightarrow> deficiencies (generated_code s) = [] \<and> validation_errors s = []"
    by (auto simp: gate_inv_def needs_compile_def)
  have b: "\<exists>s'. step gen (N_validate, s, k) = Some (N_fix, s', k) \<and> \<not> needs_compile s'
      \<and> check_should_compile s' = ''fix''"
    if "deficiencies (generated_code s) \<noteq> []"
    unfolding step_validate_fail [OF that]
    by (simp add: needs_compile_def check_should_compile_def)
  have c: "\<exists>s'. step gen (N_validate, s, k) = Some (END, s', k) \<and> validation_passed s'
      \<and> check_should_compile s' = ''compile''"
    if "deficiencies (generated_code s) = []"
    unfolding step_validate_pass [OF that]
    by (simp add: check_should_compile_def)
  from a b c show ?thesis by blast
qed

text \<open>
  Scenario C: the first generated shader lacks the SubShader block, the fix supplies it;
  the graph runs \<open>fix\<close> once and pauses for the compile request only after the second
  validation.
\<close>

theorem compile_only_after_pass_witness:
  "visited 10 fixed_once_gen (N_analyze, initial_state None 3, 0)
     = [N_analyze, N_generate, N_validate, N_fix, N_validate]
   \<and> (\<exists>s. reachable 3 fixed_once_gen (END, s, 3) \<and> needs_compile s
          \<and> generated_code s = sample_shader
          \<and> deficiencies (generated_code s) = [] \<and> validation_errors s = [])
   \<and> (\<exists>s'. step fixed_once_gen
          (N_validate, initial_state None 3\<lparr>generated_code := broken_shader\<rparr>, 2)
            = Some (N_fix, s', 2) \<and> \<not> needs_compile s')"
proof -
  let ?c0 = "(N_analyze, initial_state None 3, 0)"
  have "entry_point (initial_state None 3) = Some N_analyze"
    by (simp add: entry_point_def entry_edges_def check_has_image_def initial_state_def
          truthy_def)
  then have r0: "reachable 3 fixed_once_gen ?c0" by (rule reachable.start)
  from fixed_once_run obtain s where
    rg: "run_graph 10 fixed_once_gen ?c0 = Some (s, 3)" and
    p: "needs_compile s" "generated_code s = sample_shader"
    by (auto split: option.splits)
  from r0 rg have r1: "reachable 3 fixed_once_gen (END, s, 3)" by (rule reachable_run_graph)
  from compile_only_after_pass [OF r1] p(1)
  have d: "deficiencies (generated_code s) = []" "validation_errors s = []" by simp_all
  let ?b = "initial_state None 3\<lparr>generated_code := broken_shader\<rparr>"
  have nb: "deficiencies (generated_code ?b) \<noteq> []"
    by (simp add: broken_shader_deficient)
  have "\<exists>s'. step fixed_once_gen (N_validate, ?b, 2) = Some (N_fix, s', 2) \<and> \<not> needs_compile s'"
    unfolding step_validate_fail [OF nb] by (simp add: needs_compile_def)
  with fixed_once_visited r1 p d show ?thesis by blast
qed


subsection \<open>The fix loop\<close>













subsection \<open>Registering callbacks\<close>

text \<open>
  Claim C4, as amended. Registering a callback for a correlation id raises no error,
  whether or not the id is registered already: afterwards the entry of that id is the new
  callback (an existing entry is replaced), the entries of all other ids are as before,
  and the other maps of the handler are unchanged. A map holds at most one entry per id.
\<close>

theorem register_replaces:
  "pending_tool_calls (register_tool_callback self rid callback) rid = Some callback
   \<and> (\<forall>other. other \<noteq> rid \<longrightarrow>
         pending_tool_calls (register_tool_callback self rid callback) other
           = pending_tool_calls self other)
   \<and> pending_confirms (register_tool_callback self rid callback) = pending_confirms self
   \<and> handlers (register_tool_callback self rid callback) = handlers self
   \<and> pending_confirms (register_confirm_callback self cid confirm) cid = Some confirm
   \<and> (\<forall>other. other \<noteq> cid \<longrightarrow>
         pending_confirms (register_confirm_callback self cid confirm) other
           = pending_confirms self other)
   \<and> pending_tool_calls (register_confirm_callback self cid confirm) = pending_tool_calls self
   \<and> handlers (register_confirm_callback self cid confirm) = handlers self"
  by (simp add: register_tool_callback_def register_confirm_callback_def)

theorem register_replaces_witness:
  "pending_tool_calls waiting_handler ''call-1'' = Some first_callback
   \<and> pending_tool_calls (register_tool_callback waiting_handler ''call-2'' second_callback)
        ''call-1'' = Some first_callback
   \<and> pending_tool_calls (register_tool_callback waiting_handler ''call-2'' second_callback)
        ''call-2'' = Some second_callback"
  using register_replaces [of "MessageHandler_init :: unit MessageHandler" "''call-1''" first_callback]
    register_replaces [of waiting_handler "''call-2''" second_callback]
  by (simp add: waiting_handler_def)

text \<open>
  The claim as stated fails: a second registration for the id \<^verbatim>\<open>call-1\<close> returns normally
  and replaces the first callback; the map then holds the one entry, the second callback.
\<close>

theorem register_overwrites_silently:
  "map_option (\<lambda>cb. cb \<lparr>request_id = ''call-1'', result = []\<rparr>)
      (pending_tool_calls waiting_handler ''call-1'') = Some None
   \<and> map_option (\<lambda>cb. cb \<lparr>request_id = ''call-1'', result = []\<rparr>)
      (pending_tool_calls (register_tool_callback waiting_handler ''call-1'' second_callback)
         ''call-1'') = Some (Some ''second'')
   \<and> dom (pending_tool_calls (register_tool_callback waiting_handler ''call-1'' second_callback))
      = {''call-1''}"
  by (simp add: waiting_handler_def register_tool_callback_def MessageHandler_init_def
        first_callback_def second_callback_def)

subsection \<open>Replies without a waiting callback\<close>








subsection \<open>Parse errors and unknown types\<close>

text \<open>
  A \<^verbatim>\<open>JSONDecodeError\<close>, a \<^verbatim>\<open>MessageParseError\<close> and an unknown type tag give the error
  messages \<^verbatim>\<open>PARSE_ERROR\<close> and \<^verbatim>\<open>UNKNOWN_MESSAGE_TYPE\<close>, and the handler object is unchanged.
\<close>

lemma handle_message_errors:
  "handle_message L self (Inl e) context =
     Inr (self, \<lparr>response = Some (ERROR ''PARSE_ERROR'' (''Invalid JSON: '' @ e) (Some True)),
                called = [],
                logged = [(LogError, ''Failed to parse message: Invalid JSON: '' @ e)]\<rparr>)"
  "parse_message L loaded = Inr msg \<Longrightarrow> MessageType_of (msg_type msg) = None \<Longrightarrow>
   handle_message L self loaded context =
     Inr (self, \<lparr>response = Some (ERROR ''UNKNOWN_MESSAGE_TYPE''
                               (''Unknown message type: '' @ msg_type msg) (Some True)),
                called = [],
                logged = [(LogWarning, ''Unknown message type: '' @ msg_type msg)]\<rparr>)"
  "parse_message L loaded = Inl (MessageParseError e) \<Longrightarrow>
   \<exists>r. handle_message L self loaded context = Inr (self, r)
      \<and> response r = Some (ERROR ''PARSE_ERROR'' e (Some True)) \<and> called r = []"
  by (simp_all add: handle_message_def parse_message_def create_error_message_def)


text \<open>
  Claim C9 (the code departs from it). The input \<^verbatim>\<open>5\<close> is valid JSON and not a message;
  \<^verbatim>\<open>parse_message\<close> evaluates \<^verbatim>\<open>"type" not in data\<close> on the decoded int, which raises
  \<^verbatim>\<open>TypeError\<close>. Neither \<^verbatim>\<open>parse_message\<close> nor \<^verbatim>\<open>handle_message\<close> catches it, so
  \<^verbatim>\<open>handle_message\<close> raises instead of returning \<^verbatim>\<open>PARSE_ERROR\<close>; the same holds for
  \<^verbatim>\<open>null\<close> and \<^verbatim>\<open>true\<close>, whatever the handler object and the libraries.
\<close>

theorem handle_message_scalar_raises:
  "handle_message L self (Inr (JInt 5)) context = Inl TypeError
   \<and> handle_message L self (Inr JNull) context = Inl TypeError
   \<and> handle_message L self (Inr (JBool True)) context = Inl TypeError
   \<and> parse_message L (Inr (JInt 5)) = Inl TypeError"
  by (simp add: handle_message_def parse_message_def)


end
